theory Spec2Isabelle
  imports Complex_Main "HOL-Library.Word"
begin

section \<open>The 2.5D meshing driver (Odm25dMeshing.cpp, VTK version)\<close>

text \<open>
  The program is a driver: \<open>Odm25dMeshing::buildMesh\<close> configures a chain of library
  filters, runs them in a fixed order and writes the results. The embedding follows the
  function statement by statement. What the driver computes itself (raster size, filter
  settings, pixel copy, the transform, the order of the writes) is defined here; the
  filters it calls are fields of a record \<open>vtk\<close> and every theorem holds for all of them.
  The coordinates of the input cloud are finite numbers (\<open>real\<close>); what the driver
  computes from them in \<open>double\<close> or stores as \<open>float\<close> is a floating-point value
  (\<open>ieee\<close>) obtained by the rounded operations below; \<open>unsigned int\<close> is \<open>32 word\<close>.
\<close>

subsection \<open>Floating-point values\<close>

text \<open>
  A value of a binary floating-point format: a finite number, an infinity or not-a-number.
  The sign of a zero is not kept. \<open>round_binary p emin emax\<close> rounds a real number to the
  format with \<open>p\<close> significant bits whose smallest positive value is \<open>2 powi emin\<close> and
  whose finite values lie below \<open>2 ^ emax\<close>, to nearest with ties to the even
  significand, and to an infinity beyond the range.
\<close>

datatype ieee = Finite real | PosInf | NegInf | NaN

definition round_even :: "real \<Rightarrow> int" where
  "round_even q =
     (let f = \<lfloor>q\<rfloor>
      in if q - of_int f < 1 / 2 then f
         else if 1 / 2 < q - of_int f then f + 1
         else if even f then f else f + 1)"

definition round_binary :: "nat \<Rightarrow> int \<Rightarrow> nat \<Rightarrow> real \<Rightarrow> ieee" where
  "round_binary p emin emax x =
     (if x = 0 then Finite 0
      else let e = max (\<lfloor>log 2 \<bar>x\<bar>\<rfloor> - (int p - 1)) emin;
               y = of_int (round_even (x / 2 powi e)) * 2 powi e
           in if 2 ^ emax \<le> \<bar>y\<bar> then (if 0 < x then PosInf else NegInf) else Finite y)"

definition to_double :: "real \<Rightarrow> ieee" where
  "to_double = round_binary 53 (- 1074) 1024"

definition to_float :: "real \<Rightarrow> ieee" where
  "to_float = round_binary 24 (- 149) 128"

definition is_double :: "real \<Rightarrow> bool" where
  "is_double x \<longleftrightarrow> to_double x = Finite x"

text \<open>The \<open>double\<close> operations the driver uses.\<close>

definition fneg :: "ieee \<Rightarrow> ieee" where
  "fneg a = (case a of Finite x \<Rightarrow> Finite (- x) | PosInf \<Rightarrow> NegInf | NegInf \<Rightarrow> PosInf | NaN \<Rightarrow> NaN)"

definition fadd :: "ieee \<Rightarrow> ieee \<Rightarrow> ieee" where
  "fadd a b =
     (case (a, b) of
        (Finite x, Finite y) \<Rightarrow> to_double (x + y)
      | (NaN, _) \<Rightarrow> NaN
      | (_, NaN) \<Rightarrow> NaN
      | (PosInf, NegInf) \<Rightarrow> NaN
      | (NegInf, PosInf) \<Rightarrow> NaN
      | (PosInf, _) \<Rightarrow> PosInf
      | (NegInf, _) \<Rightarrow> NegInf
      | (Finite x, c) \<Rightarrow> c)"

definition fsub :: "ieee \<Rightarrow> ieee \<Rightarrow> ieee" where
  "fsub a b = fadd a (fneg b)"

text \<open>Whether a value is below zero; a zero and not-a-number are not.\<close>

definition negative :: "ieee \<Rightarrow> bool" where
  "negative a = (case a of Finite x \<Rightarrow> x < 0 | NegInf \<Rightarrow> True | _ \<Rightarrow> False)"

definition infinity :: "bool \<Rightarrow> ieee" where
  "infinity neg = (if neg then NegInf else PosInf)"

definition fmul :: "ieee \<Rightarrow> ieee \<Rightarrow> ieee" where
  "fmul a b =
     (case (a, b) of
        (Finite x, Finite y) \<Rightarrow> to_double (x * y)
      | (NaN, _) \<Rightarrow> NaN
      | (_, NaN) \<Rightarrow> NaN
      | (Finite x, c) \<Rightarrow> (if x = 0 then NaN else infinity (negative a \<noteq> negative c))
      | (c, Finite y) \<Rightarrow> (if y = 0 then NaN else infinity (negative c \<noteq> negative b))
      | (c, d) \<Rightarrow> infinity (negative c \<noteq> negative d))"

definition fdiv :: "ieee \<Rightarrow> ieee \<Rightarrow> ieee" where
  "fdiv a b =
     (case (a, b) of
        (Finite x, Finite y) \<Rightarrow>
          (if y = 0 then (if x = 0 then NaN else infinity (x < 0)) else to_double (x / y))
      | (NaN, _) \<Rightarrow> NaN
      | (_, NaN) \<Rightarrow> NaN
      | (Finite x, c) \<Rightarrow> Finite 0
      | (c, Finite y) \<Rightarrow> infinity (negative c \<noteq> negative b)
      | (c, d) \<Rightarrow> NaN)"

definition fceil :: "ieee \<Rightarrow> ieee" where
  "fceil a = (case a of Finite x \<Rightarrow> Finite (of_int \<lceil>x\<rceil>) | c \<Rightarrow> c)"

subsection \<open>Conversions\<close>

text \<open>A C++ \<open>double\<close> converted to \<open>int\<close> drops the fraction (rounds toward zero).\<close>

definition double_to_int :: "real \<Rightarrow> int" where
  "double_to_int x = (if 0 \<le> x then \<lfloor>x\<rfloor> else \<lceil>x\<rceil>)"

text \<open>
  The same conversion into the 32 bits of \<open>int width\<close> and \<open>int height\<close>. A value whose
  integer part does not fit, an infinity and not-a-number have no defined result in C++;
  the value taken is the one the conversion instruction of x86-64 delivers, \<open>- 2 ^ 31\<close>.
\<close>

definition to_int32 :: "ieee \<Rightarrow> int" where
  "to_int32 a =
     (case a of
        Finite x \<Rightarrow> (if - (2 ^ 31) - 1 < x \<and> x < 2 ^ 31 then double_to_int x else - (2 ^ 31))
      | _ \<Rightarrow> - (2 ^ 31))"

subsection \<open>Data\<close>

type_synonym point3 = "real \<times> real \<times> real"

text \<open>
  A \<open>vtkPolyData\<close>: points, the point-data array \<open>elevation\<close> (of \<open>float\<close>), and the point
  ids of each cell. The points of the cloud are real; the points the library or the
  transform computes are floating-point values.
\<close>

record 'c polydata =
  Points :: "('c \<times> 'c \<times> 'c) list"
  Scalars :: "ieee list"
  Cells :: "nat list list"

text \<open>A \<open>vtkImageData\<close> of one float component; a pixel never written is \<open>None\<close>.\<close>

record image_data =
  Dimensions :: "int \<times> int \<times> int"
  Pixels :: "nat \<times> nat \<Rightarrow> ieee option"

text \<open>The members of the class that \<open>buildMesh\<close> reads (set by \<open>parseArguments\<close>).\<close>

record config =
  outputFile :: string
  outputDsmFile :: string
  maxVertexCount :: "32 word"
  resolution :: real
  shepardNeighbors :: "32 word"

subsection \<open>Argument clamps of \<open>parseArguments\<close>\<close>

definition clamp_maxVertexCount :: "32 word \<Rightarrow> 32 word" where
  "clamp_maxVertexCount v = max v 0"

definition clamp_resolution :: "real \<Rightarrow> real" where
  "clamp_resolution r = min 100000 (max r 0.00001)"

definition clamp_shepardNeighbors :: "32 word \<Rightarrow> 32 word" where
  "clamp_shepardNeighbors n = min 1000 (max n 1)"

subsection \<open>Filter settings\<close>

record removal_settings =
  SampleSize :: int
  StandardDeviationFactor :: real
  GenerateOutliers :: bool

record plane_settings =
  XResolution :: int
  YResolution :: int
  Origin :: "ieee \<times> ieee \<times> ieee"
  Point1 :: "ieee \<times> ieee \<times> ieee"
  Point2 :: "ieee \<times> ieee \<times> ieee"
  Center :: "ieee \<times> ieee \<times> ieee"
  Normal :: "ieee \<times> ieee \<times> ieee"

datatype kernel_footprint = RADIUS | N_CLOSEST

record shepard_settings =
  PowerParameter :: real
  KernelFootprint :: kernel_footprint
  NumberOfPoints :: "32 word"
  NullValue :: real

record diffusion_settings =
  Faces :: bool
  Edges :: bool
  Corners :: bool
  DiffusionFactor :: real
  GradientMagnitudeThreshold :: bool
  DiffusionThreshold :: real
  NumberOfIterations :: int

datatype error_measure = NumberOfTrianglesMeasure | SpecifiedReduction | AbsoluteError | RelativeError

record terrain_settings =
  ErrorMeasure :: error_measure
  NumberOfTriangles :: int
  BoundaryVertexDeletion :: bool

text \<open>
  The library filters the driver runs: what each returns, from the settings the driver
  gives it and its input data, when it returns. \<open>StatisticalOutlierRemoval\<close> also returns
  the count reported by \<open>GetNumberOfPointsRemoved\<close>. The point locators handed to the
  removal and to the interpolator are search structures over data the filter already has
  and are left out.
\<close>

record vtk =
  StatisticalOutlierRemoval :: "removal_settings \<Rightarrow> point3 list \<Rightarrow> point3 list \<times> int"
  PlaneSource :: "plane_settings \<Rightarrow> ieee polydata"
  PointInterpolator :: "shepard_settings \<Rightarrow> ieee polydata \<Rightarrow> real polydata \<Rightarrow> ieee polydata"
  ImageAnisotropicDiffusion2D :: "diffusion_settings \<Rightarrow> image_data \<Rightarrow> image_data"
  GreedyTerrainDecimation :: "terrain_settings \<Rightarrow> image_data \<Rightarrow> ieee polydata"

subsection \<open>Bounds and centre of a point set\<close>

text \<open>
  \<open>GetBounds\<close> is the axis-aligned box \<open>(xmin, xmax, ymin, ymax, zmin, zmax)\<close> of the
  points and \<open>GetCenter\<close> the midpoint of that box, computed in \<open>double\<close>.
\<close>

definition GetBounds :: "point3 list \<Rightarrow> real \<times> real \<times> real \<times> real \<times> real \<times> real" where
  "GetBounds ps =
     (let xs = map fst ps; ys = map (fst \<circ> snd) ps; zs = map (snd \<circ> snd) ps
      in (Min (set xs), Max (set xs), Min (set ys), Max (set ys), Min (set zs), Max (set zs)))"

definition GetCenter :: "point3 list \<Rightarrow> ieee \<times> ieee \<times> ieee" where
  "GetCenter ps =
     (case GetBounds ps of (b0, b1, b2, b3, b4, b5) \<Rightarrow>
        (fdiv (fadd (Finite b1) (Finite b0)) (Finite 2),
         fdiv (fadd (Finite b3) (Finite b2)) (Finite 2),
         fdiv (fadd (Finite b5) (Finite b4)) (Finite 2)))"

subsection \<open>\<open>vtkTransform\<close> and \<open>vtkTransformFilter\<close>\<close>

text \<open>
  A \<open>vtkTransform\<close> concatenates the operations given to it and, in its default
  pre-multiply mode, composes each new operation on the right of the matrix it holds:
  the operation added last acts on a point first. \<open>buildMesh\<close> adds one translation and
  one axis scaling; the transform is kept as the list of its operations, the last added
  in front, and a point goes through them in that order, each step in \<open>double\<close>.
\<close>

datatype transform_op = TranslateOp "ieee \<times> ieee \<times> ieee" | ScaleOp "ieee \<times> ieee \<times> ieee"

type_synonym vtkTransform = "transform_op list"

definition Identity :: vtkTransform where
  "Identity = []"

definition Translate :: "ieee \<Rightarrow> ieee \<Rightarrow> ieee \<Rightarrow> vtkTransform \<Rightarrow> vtkTransform" where
  "Translate x y z T = TranslateOp (x, y, z) # T"

definition Scale :: "ieee \<Rightarrow> ieee \<Rightarrow> ieee \<Rightarrow> vtkTransform \<Rightarrow> vtkTransform" where
  "Scale x y z T = ScaleOp (x, y, z) # T"

definition scale_by :: "ieee \<times> ieee \<times> ieee \<Rightarrow> ieee \<times> ieee \<times> ieee \<Rightarrow> ieee \<times> ieee \<times> ieee" where
  "scale_by s p = (case (s, p) of ((a, b, c), (x, y, z)) \<Rightarrow> (fmul a x, fmul b y, fmul c z))"

definition translate_by :: "ieee \<times> ieee \<times> ieee \<Rightarrow> ieee \<times> ieee \<times> ieee \<Rightarrow> ieee \<times> ieee \<times> ieee" where
  "translate_by t p = (case (t, p) of ((u, v, w), (x, y, z)) \<Rightarrow> (fadd x u, fadd y v, fadd z w))"

fun apply_op :: "transform_op \<Rightarrow> ieee \<times> ieee \<times> ieee \<Rightarrow> ieee \<times> ieee \<times> ieee" where
  "apply_op (TranslateOp t) p = translate_by t p"
| "apply_op (ScaleOp s) p = scale_by s p"

definition TransformPoint :: "vtkTransform \<Rightarrow> ieee \<times> ieee \<times> ieee \<Rightarrow> ieee \<times> ieee \<times> ieee" where
  "TransformPoint T p = fold apply_op T p"

text \<open>The filter moves the points and copies everything else.\<close>

definition TransformFilter :: "vtkTransform \<Rightarrow> ieee polydata \<Rightarrow> ieee polydata" where
  "TransformFilter T m = m\<lparr>Points := map (TransformPoint T) (Points m)\<rparr>"

subsection \<open>The stages of \<open>buildMesh\<close>\<close>

definition NODATA :: real where
  "NODATA = -9999"

definition removal_config :: removal_settings where
  "removal_config = \<lparr>SampleSize = 24, StandardDeviationFactor = 1.5, GenerateOutliers = False\<rparr>"

text \<open>
  Squash to the plane: the height goes to the \<open>elevation\<close> array, rounded to \<open>float\<close>,
  and the point to \<open>z = 0\<close>. The source reads each point into a buffer declared
  \<open>double p[2]\<close> and uses \<open>p[2]\<close>, the word behind the buffer. \<open>squash\<close> is what the loop
  computes when that word serves as a third slot; \<open>squash_loop\<close> is the loop itself, with
  no defined result when it does not and the loop has a point to work on.
\<close>

definition squash :: "point3 list \<Rightarrow> real polydata" where
  "squash cleanedPoints =
     \<lparr>Points = map (\<lambda>(x, y, z). (x, y, 0)) cleanedPoints,
      Scalars = map (\<lambda>(x, y, z). to_float z) cleanedPoints,
      Cells = []\<rparr>"

definition squash_loop :: "bool \<Rightarrow> point3 list \<Rightarrow> real polydata option" where
  "squash_loop third_slot cleanedPoints =
     (if cleanedPoints = [] \<or> third_slot then Some (squash cleanedPoints) else None)"

definition polydataToProcess :: "vtk \<Rightarrow> point3 list \<Rightarrow> real polydata" where
  "polydataToProcess lib points = squash (fst (StatisticalOutlierRemoval lib removal_config points))"

definition extentX :: "real polydata \<Rightarrow> ieee" where
  "extentX pd =
     (case GetBounds (Points pd) of (b0, b1, b2, b3, b4, b5) \<Rightarrow> fsub (Finite b1) (Finite b0))"

definition extentY :: "real polydata \<Rightarrow> ieee" where
  "extentY pd =
     (case GetBounds (Points pd) of (b0, b1, b2, b3, b4, b5) \<Rightarrow> fsub (Finite b3) (Finite b2))"

definition width :: "real \<Rightarrow> real polydata \<Rightarrow> int" where
  "width res pd = to_int32 (fceil (fmul (extentX pd) (Finite res)))"

definition height :: "real \<Rightarrow> real polydata \<Rightarrow> int" where
  "height res pd = to_int32 (fceil (fmul (extentY pd) (Finite res)))"

definition plane_config :: "real \<Rightarrow> real polydata \<Rightarrow> plane_settings" where
  "plane_config res pd =
     \<lparr>XResolution = width res pd, YResolution = height res pd,
      Origin = (Finite 0, Finite 0, Finite 0),
      Point1 = (extentX pd, Finite 0, Finite 0),
      Point2 = (Finite 0, extentY pd, Finite 0),
      Center = GetCenter (Points pd),
      Normal = (Finite 0, Finite 0, Finite 1)\<rparr>"

definition shepard_config :: "32 word \<Rightarrow> shepard_settings" where
  "shepard_config n =
     \<lparr>PowerParameter = 2, KernelFootprint = N_CLOSEST, NumberOfPoints = n, NullValue = NODATA\<rparr>"

definition interpolatedPoly :: "vtk \<Rightarrow> config \<Rightarrow> point3 list \<Rightarrow> ieee polydata" where
  "interpolatedPoly lib cfg points =
     (let pd = polydataToProcess lib points;
          plane = PlaneSource lib (plane_config (resolution cfg) pd)
      in PointInterpolator lib (shepard_config (shepardNeighbors cfg)) plane pd)"

text \<open>\<open>GetCell(c)->GetPointId(0)\<close> and \<open>GetValue(id)\<close>; out of range there is no value.\<close>

definition GetCellPointId0 :: "'c polydata \<Rightarrow> nat \<Rightarrow> nat option" where
  "GetCellPointId0 pd c =
     (if c < length (Cells pd) then (case Cells pd ! c of [] \<Rightarrow> None | p # _ \<Rightarrow> Some p) else None)"

definition GetValue :: "ieee list \<Rightarrow> nat \<Rightarrow> ieee option" where
  "GetValue a i = (if i < length a then Some (a ! i) else None)"

definition pixel_value :: "int \<Rightarrow> 'c polydata \<Rightarrow> nat \<Rightarrow> nat \<Rightarrow> ieee option" where
  "pixel_value w poly i j =
     (case GetCellPointId0 poly (j * nat w + i) of
        None \<Rightarrow> None
      | Some cellId \<Rightarrow> GetValue (Scalars poly) cellId)"

text \<open>The double loop that copies the interpolated elevations into the image.\<close>

definition fill_image :: "int \<Rightarrow> int \<Rightarrow> 'c polydata \<Rightarrow> image_data" where
  "fill_image w h poly =
     \<lparr>Dimensions = (w, h, 1),
      Pixels =
        fold (\<lambda>i px. fold (\<lambda>j px. px((i, j) := pixel_value w poly i j)) [0..<nat h] px)
          [0..<nat w] (\<lambda>_. None)\<rparr>"

text \<open>
  The loop dereferences the cell and reads the array without a check: it has a defined
  result when every cell and value it asks for is there.
\<close>

definition cells_present :: "int \<Rightarrow> int \<Rightarrow> 'c polydata \<Rightarrow> bool" where
  "cells_present w h poly =
     list_all (\<lambda>i. list_all (\<lambda>j. pixel_value w poly i j \<noteq> None) [0..<nat h]) [0..<nat w]"

text \<open>The image after the interpolation loop, before anything else touches it.\<close>

definition filled_image :: "vtk \<Rightarrow> config \<Rightarrow> point3 list \<Rightarrow> image_data" where
  "filled_image lib cfg points =
     (let pd = polydataToProcess lib points
      in fill_image (width (resolution cfg) pd) (height (resolution cfg) pd)
           (interpolatedPoly lib cfg points))"

text \<open>Whether the pixel loop of a run finds every cell and value it reads.\<close>

definition pixel_reads_defined :: "vtk \<Rightarrow> config \<Rightarrow> point3 list \<Rightarrow> bool" where
  "pixel_reads_defined lib cfg points =
     (let pd = polydataToProcess lib points
      in cells_present (width (resolution cfg) pd) (height (resolution cfg) pd)
           (interpolatedPoly lib cfg points))"

definition surfaceDiffusion_config :: "real \<Rightarrow> diffusion_settings" where
  "surfaceDiffusion_config res =
     \<lparr>Faces = True, Edges = True, Corners = True, DiffusionFactor = 1,
      GradientMagnitudeThreshold = True, DiffusionThreshold = 0.2,
      NumberOfIterations = double_to_int (res / 2.0)\<rparr>"

text \<open>
  \<open>maxVertexCount * 2\<close> is computed in \<open>unsigned int\<close> and then widened to the
  library's signed 64-bit id type.
\<close>

definition terrain_config :: "32 word \<Rightarrow> terrain_settings" where
  "terrain_config mvc =
     \<lparr>ErrorMeasure = NumberOfTrianglesMeasure, NumberOfTriangles = uint (mvc * 2),
      BoundaryVertexDeletion = True\<rparr>"

text \<open>
  The translation is \<open>-extentX / 2.0 + center[0]\<close> and the scaling \<open>extentX / width\<close>, in
  \<open>double\<close>: a raster of width 0 gives an infinite or undefined factor.
\<close>

definition transform :: "real \<Rightarrow> real polydata \<Rightarrow> vtkTransform" where
  "transform res pd =
     (case GetCenter (Points pd) of (c0, c1, c2) \<Rightarrow>
        Scale (fdiv (extentX pd) (Finite (of_int (width res pd))))
              (fdiv (extentY pd) (Finite (of_int (height res pd)))) (Finite 1)
          (Translate (fadd (fdiv (fneg (extentX pd)) (Finite 2.0)) c0)
                     (fadd (fdiv (fneg (extentY pd)) (Finite 2.0)) c1) (Finite 0) Identity))"

subsection \<open>\<open>buildMesh\<close>\<close>

datatype stage = OutlierRemoval | PointInterpolation | SurfaceDiffusion | TerrainDecimation

text \<open>
  What \<open>buildMesh\<close> does that can be seen from outside, in program order: the explicit
  \<open>Update\<close> of a filter, the figures it logs, and the two files it writes.
\<close>

datatype event =
    Update stage
  | LogPointsRemoved int
  | LogExtent ieee ieee
  | LogDsmSize int int
  | WriteTIFF string image_data
  | WritePLY string "ieee polydata"

text \<open>
  The trace of \<open>buildMesh\<close> when every library call returns and every memory access of
  the driver succeeds.
\<close>

definition buildMesh :: "vtk \<Rightarrow> config \<Rightarrow> point3 list \<Rightarrow> event list" where
  "buildMesh lib cfg points =
     (let removed = snd (StatisticalOutlierRemoval lib removal_config points);
          pd = polydataToProcess lib points;
          img = filled_image lib cfg points;
          smoothed = ImageAnisotropicDiffusion2D lib (surfaceDiffusion_config (resolution cfg)) img;
          terrain = GreedyTerrainDecimation lib (terrain_config (maxVertexCount cfg)) smoothed
      in [Update OutlierRemoval, LogPointsRemoved removed,
          LogExtent (extentX pd) (extentY pd),
          LogDsmSize (width (resolution cfg) pd) (height (resolution cfg) pd),
          Update PointInterpolation]
         @ (if outputDsmFile cfg \<noteq> [] then [WriteTIFF (outputDsmFile cfg) img] else [])
         @ [Update SurfaceDiffusion, Update TerrainDecimation,
            WritePLY (outputFile cfg) (TransformFilter (transform (resolution cfg) pd) terrain)])"

subsection \<open>\<open>buildMesh\<close> with the ways it can end\<close>

text \<open>
  \<open>buildMesh\<close> has no \<open>throw\<close> and no test of the number of points. It ends early when
  a library call throws (the exception leaves \<open>buildMesh\<close> and \<open>run\<close> answers it with
  \<open>EXIT_FAILURE\<close>), and it has no defined behaviour when one of its unchecked memory
  accesses goes wrong: the word behind \<open>double p[2]\<close> in the squash loop, a missing cell
  or array value in the pixel loop. Which of these happens in a run is not decided by
  the driver; it is given by \<open>conditions\<close>.
\<close>

datatype library_call = Updating stage | AllocatingScalars | WritingTIFF | WritingPLY

record conditions =
  throws :: "library_call \<Rightarrow> string option"
  third_slot :: bool

datatype outcome = Returned | Thrown string | Undefined

definition thrown_or ::
  "string option \<Rightarrow> event list \<Rightarrow> event list \<times> outcome \<Rightarrow> event list \<times> outcome" where
  "thrown_or t es rest = (case t of Some x \<Rightarrow> (es, Thrown x) | None \<Rightarrow> rest)"

definition buildMesh_run ::
  "conditions \<Rightarrow> vtk \<Rightarrow> config \<Rightarrow> point3 list \<Rightarrow> event list \<times> outcome" where
  "buildMesh_run c lib cfg points =
     (let removal = StatisticalOutlierRemoval lib removal_config points;
          cleanedPoints = fst removal;
          pd = squash cleanedPoints;
          w = width (resolution cfg) pd;
          h = height (resolution cfg) pd;
          plane = PlaneSource lib (plane_config (resolution cfg) pd);
          poly = PointInterpolator lib (shepard_config (shepardNeighbors cfg)) plane pd;
          img = fill_image w h poly;
          smoothed = ImageAnisotropicDiffusion2D lib (surfaceDiffusion_config (resolution cfg)) img;
          terrain = GreedyTerrainDecimation lib (terrain_config (maxVertexCount cfg)) smoothed;
          e1 = [Update OutlierRemoval, LogPointsRemoved (snd removal)];
          e2 = e1 @ [LogExtent (extentX pd) (extentY pd), LogDsmSize w h];
          e3 = e2 @ [Update PointInterpolation];
          e4 = e3 @ (if outputDsmFile cfg \<noteq> [] then [WriteTIFF (outputDsmFile cfg) img] else []);
          e5 = e4 @ [Update SurfaceDiffusion];
          e6 = e5 @ [Update TerrainDecimation];
          e7 = e6 @ [WritePLY (outputFile cfg) (TransformFilter (transform (resolution cfg) pd) terrain)]
      in thrown_or (throws c (Updating OutlierRemoval)) []
          (if squash_loop (third_slot c) cleanedPoints = None then (e1, Undefined)
           else thrown_or (throws c AllocatingScalars) e2
             (thrown_or (throws c (Updating PointInterpolation)) e2
               (if \<not> cells_present w h poly then (e3, Undefined)
                else thrown_or (if outputDsmFile cfg \<noteq> [] then throws c WritingTIFF else None) e3
                  (thrown_or (throws c (Updating SurfaceDiffusion)) e4
                    (thrown_or (throws c (Updating TerrainDecimation)) e5
                      (thrown_or (throws c WritingPLY) e6 (e7, Returned))))))))"

text \<open>The conditions under which nothing goes wrong.\<close>

definition calm :: conditions where
  "calm = \<lparr>throws = (\<lambda>_. None), third_slot = True\<rparr>"

subsection \<open>Reading a trace\<close>

fun tiff_of :: "event \<Rightarrow> (string \<times> image_data) option" where
  "tiff_of (WriteTIFF f img) = Some (f, img)"
| "tiff_of _ = None"

fun ply_of :: "event \<Rightarrow> (string \<times> ieee polydata) option" where
  "ply_of (WritePLY f m) = Some (f, m)"
| "ply_of _ = None"

definition tiffWritten :: "event list \<Rightarrow> (string \<times> image_data) list" where
  "tiffWritten es = List.map_filter tiff_of es"

definition plyWritten :: "event list \<Rightarrow> (string \<times> ieee polydata) list" where
  "plyWritten es = List.map_filter ply_of es"

text \<open>The part of a trace that precedes the run of the diffusion filter.\<close>

definition before_diffusion :: "event list \<Rightarrow> event list" where
  "before_diffusion es = takeWhile (\<lambda>e. e \<noteq> Update SurfaceDiffusion) es"

subsection \<open>A library instance for running the driver on concrete inputs\<close>

text \<open>
  Every theorem below holds for all libraries. To run the driver on a concrete cloud one
  library is fixed. Its removal and its diffusion pass their input on. Its plane is the
  grid of \<open>XResolution\<close> by \<open>YResolution\<close> cells with the points numbered row by row and
  placed at whole numbers; its interpolator gives every plane point the elevation of the
  first source point, or the null value when there is none; its decimator answers with
  two triangles over a unit square.
\<close>

definition grid_plane :: "plane_settings \<Rightarrow> ieee polydata" where
  "grid_plane s =
     (let nx = nat (XResolution s); ny = nat (YResolution s)
      in \<lparr>Points =
            concat (map (\<lambda>j. map (\<lambda>i. (Finite (of_nat i), Finite (of_nat j), Finite 0))
              [0..<nx + 1]) [0..<ny + 1]),
          Scalars = [],
          Cells =
            concat (map (\<lambda>j. map (\<lambda>i.
              [j * (nx + 1) + i, j * (nx + 1) + i + 1, (j + 1) * (nx + 1) + i + 1, (j + 1) * (nx + 1) + i])
              [0..<nx]) [0..<ny])\<rparr>)"

definition first_elevation :: "shepard_settings \<Rightarrow> ieee polydata \<Rightarrow> real polydata \<Rightarrow> ieee polydata" where
  "first_elevation s plane src =
     plane\<lparr>Scalars :=
       replicate (length (Points plane))
         (case Scalars src of [] \<Rightarrow> Finite (NullValue s) | e # _ \<Rightarrow> e)\<rparr>"

definition two_triangles :: "ieee polydata" where
  "two_triangles =
     \<lparr>Points = [(Finite 0, Finite 0, Finite 0), (Finite 1, Finite 0, Finite 0),
                (Finite 0, Finite 1, Finite 0), (Finite 1, Finite 1, Finite 6)],
      Scalars = [],
      Cells = [[0, 1, 2], [1, 3, 2]]\<rparr>"

definition plain_vtk :: vtk where
  "plain_vtk =
     \<lparr>StatisticalOutlierRemoval = (\<lambda>s ps. (ps, 0)),
      PlaneSource = grid_plane,
      PointInterpolator = first_elevation,
      ImageAnisotropicDiffusion2D = (\<lambda>s img. img),
      GreedyTerrainDecimation = (\<lambda>s img. two_triangles)\<rparr>"

definition small_cloud :: "point3 list" where
  "small_cloud = [(0, 0, 5), (3 / 2, 1, 7), (1, 1 / 2, 6)]"


text \<open>The library above with a removal that reports the sample size it was given.\<close>

definition reporting_vtk :: vtk where
  "reporting_vtk = plain_vtk\<lparr>StatisticalOutlierRemoval := (\<lambda>s ps. (ps, SampleSize s))\<rparr>"





definition small_config :: config where
  "small_config =
     \<lparr>outputFile = ''mesh.ply'', outputDsmFile = ''dsm.tif'', maxVertexCount = 0,
      resolution = 1, shepardNeighbors = 24\<rparr>"

section \<open>Properties of the driver\<close>

subsection \<open>Exact floating-point results\<close>

lemma round_even_of_int: "round_even (of_int n) = n"
  by (simp add: round_even_def)

lemma floor_log2_less:
  assumes "0 < x" and "x < 2 powi n"
  shows "\<lfloor>log 2 x\<rfloor> < n"
proof -
  have "log 2 x < log 2 (2 powi n)"
    using assms by simp
  also have "log 2 (2 powi n) = of_int n"
    by (simp add: powr_real_of_int' [symmetric])
  finally show ?thesis
    by (simp add: floor_less_iff)
qed

lemma round_binary_exact:
  assumes x: "x = of_int m * 2 powi k" and m: "\<bar>m\<bar> < 2 ^ p" and k: "emin \<le> k"
    and r: "\<bar>x\<bar> < 2 ^ emax"
  shows "round_binary p emin emax x = Finite x"
proof (cases "x = 0")
  case True
  then show ?thesis
    by (simp add: round_binary_def)
next
  case False
  define e where "e = max (\<lfloor>log 2 \<bar>x\<bar>\<rfloor> - (int p - 1)) emin"
  have "\<bar>x\<bar> = of_int \<bar>m\<bar> * 2 powi k"
    by (simp add: x abs_mult)
  also have "\<dots> < 2 ^ p * 2 powi k"
  proof -
    have "(of_int \<bar>m\<bar> :: real) < of_int (2 ^ p)"
      using m by (simp only: of_int_less_iff)
    then show ?thesis by simp
  qed
  also have "\<dots> = 2 powi (int p + k)"
    by (simp add: power_int_add)
  finally have "\<lfloor>log 2 \<bar>x\<bar>\<rfloor> < int p + k"
    using False by (intro floor_log2_less) auto
  then have ek: "e \<le> k"
    using k by (simp add: e_def)
  define d where "d = nat (k - e)"
  have kd: "k = e + int d"
    using ek by (simp add: d_def)
  have "x / 2 powi e = of_int m * (2 powi (e + int d) / 2 powi e)"
    by (simp add: x kd)
  also have "2 powi (e + int d) / 2 powi e = (2::real) ^ d"
    by (simp add: power_int_add)
  also have "of_int m * (2::real) ^ d = of_int (m * 2 ^ d)"
    by simp
  finally have q: "x / 2 powi e = of_int (m * 2 ^ d)" .
  have y: "of_int (round_even (x / 2 powi e)) * 2 powi e = x"
    unfolding q round_even_of_int by (simp add: x kd power_int_add)
  show ?thesis
    using False r unfolding round_binary_def e_def [symmetric] Let_def y by simp
qed

lemma is_double_dyadic:
  assumes "\<bar>m\<bar> < 2 ^ 53" and "k \<le> 1074"
  shows "is_double (of_int m / 2 ^ k)"
  unfolding is_double_def to_double_def
proof (rule round_binary_exact [where m = m and k = "- int k"])
  show "real_of_int m / 2 ^ k = of_int m * 2 powi (- int k)"
    by (simp add: power_int_minus field_simps)
  have "\<bar>real_of_int m / 2 ^ k\<bar> \<le> \<bar>real_of_int m\<bar>"
    by (simp add: divide_le_eq_1 field_simps mult_le_cancel_left1)
  also have "\<dots> < 2 ^ 53"
    using assms(1) by (metis of_int_abs of_int_less_iff of_int_numeral of_int_power)
  also have "\<dots> \<le> (2::real) ^ 1024"
    by simp
  finally show "\<bar>real_of_int m / 2 ^ k\<bar> < 2 ^ 1024" .
qed (use assms in auto)

lemma is_float_whole:
  assumes "\<bar>m\<bar> < 2 ^ 24"
  shows "to_float (of_int m) = Finite (of_int m)"
  unfolding to_float_def
proof (rule round_binary_exact [where m = m and k = 0])
  have "\<bar>real_of_int m\<bar> < 2 ^ 24"
    using assms by (metis of_int_abs of_int_less_iff of_int_numeral of_int_power)
  also have "\<dots> \<le> (2::real) ^ 128"
    by simp
  finally show "\<bar>real_of_int m\<bar> < 2 ^ 128" .
qed (use assms in auto)

lemma to_double_zero: "to_double 0 = Finite 0"
  by (simp add: to_double_def round_binary_def)

lemma to_double_one: "to_double 1 = Finite 1"
  using is_double_dyadic [of 1 0] by (simp add: is_double_def)

lemma to_double_numeral:
  "(numeral n :: int) < 2 ^ 53 \<Longrightarrow> to_double (numeral n) = Finite (numeral n)"
  using is_double_dyadic [of "numeral n" 0] by (simp add: is_double_def)

lemma to_double_neg_numeral:
  "(numeral n :: int) < 2 ^ 53 \<Longrightarrow> to_double (- numeral n) = Finite (- numeral n)"
  using is_double_dyadic [of "- numeral n" 0] by (simp add: is_double_def)

lemma to_double_halves:
  "(numeral n :: int) < 2 ^ 53 \<Longrightarrow> to_double (numeral n / 2) = Finite (numeral n / 2)"
  "(numeral n :: int) < 2 ^ 53 \<Longrightarrow> to_double (- (numeral n / 2)) = Finite (- (numeral n / 2))"
  "to_double (1 / 2) = Finite (1 / 2)"
  "to_double (- (1 / 2)) = Finite (- (1 / 2))"
  using is_double_dyadic [of "numeral n" 1] is_double_dyadic [of "- numeral n" 1]
    is_double_dyadic [of 1 1] is_double_dyadic [of "- 1" 1]
  by (simp_all add: is_double_def)

lemma to_double_quarters:
  "(numeral n :: int) < 2 ^ 53 \<Longrightarrow> to_double (numeral n / 4) = Finite (numeral n / 4)"
  "(numeral n :: int) < 2 ^ 53 \<Longrightarrow> to_double (- (numeral n / 4)) = Finite (- (numeral n / 4))"
  using is_double_dyadic [of "numeral n" 2] is_double_dyadic [of "- numeral n" 2]
  by (simp_all add: is_double_def)

lemma to_double_eighths:
  "(numeral n :: int) < 2 ^ 53 \<Longrightarrow> to_double (numeral n / 8) = Finite (numeral n / 8)"
  "(numeral n :: int) < 2 ^ 53 \<Longrightarrow> to_double (- (numeral n / 8)) = Finite (- (numeral n / 8))"
  using is_double_dyadic [of "numeral n" 3] is_double_dyadic [of "- numeral n" 3]
  by (simp_all add: is_double_def)

lemmas exact_values = to_double_zero to_double_one to_double_numeral to_double_neg_numeral
  to_double_halves to_double_quarters to_double_eighths

lemmas ieee_ops = fadd_def fsub_def fneg_def fmul_def fdiv_def fceil_def to_int32_def
  double_to_int_def

subsection \<open>Shared facts\<close>

lemma clamp_maxVertexCount_id: "clamp_maxVertexCount v = v"
  by (simp add: clamp_maxVertexCount_def max_def)

lemma clamp_resolution_range: "0.00001 \<le> clamp_resolution r \<and> clamp_resolution r \<le> 100000"
  by (simp add: clamp_resolution_def)

lemma clamp_shepardNeighbors_range:
  "1 \<le> clamp_shepardNeighbors n \<and> clamp_shepardNeighbors n \<le> 1000"
  by (auto simp add: clamp_shepardNeighbors_def min_def max_def)

lemma plyWritten_buildMesh:
  "plyWritten (buildMesh lib cfg points) =
     [(outputFile cfg,
       TransformFilter (transform (resolution cfg) (polydataToProcess lib points))
          (GreedyTerrainDecimation lib (terrain_config (maxVertexCount cfg))
             (ImageAnisotropicDiffusion2D lib (surfaceDiffusion_config (resolution cfg))
                (filled_image lib cfg points))))]"
  by (simp add: buildMesh_def Let_def plyWritten_def map_filter_def)

lemma tiffWritten_buildMesh:
  "tiffWritten (buildMesh lib cfg points) =
     (if outputDsmFile cfg \<noteq> [] then [(outputDsmFile cfg, filled_image lib cfg points)] else [])"
  by (simp add: buildMesh_def Let_def tiffWritten_def map_filter_def)

lemma tiffWritten_before_diffusion:
  "tiffWritten (before_diffusion (buildMesh lib cfg points)) =
     (if outputDsmFile cfg \<noteq> [] then [(outputDsmFile cfg, filled_image lib cfg points)] else [])"
  by (simp add: buildMesh_def Let_def tiffWritten_def map_filter_def before_diffusion_def)

lemma filled_image_frame:
  "filled_image (lib\<lparr>ImageAnisotropicDiffusion2D := d\<rparr>) cfg points = filled_image lib cfg points"
  by (simp add: filled_image_def interpolatedPoly_def polydataToProcess_def Let_def)

lemma small_bounds: "GetBounds (Points (squash small_cloud)) = (0, 3 / 2, 0, 1, 0, 0)"
  by (simp add: small_cloud_def squash_def GetBounds_def)

lemma small_extent:
  "extentX (squash small_cloud) = Finite (3 / 2)" "extentY (squash small_cloud) = Finite 1"
  by (simp_all add: extentX_def extentY_def small_bounds ieee_ops exact_values)

lemma small_width: "width 1 (squash small_cloud) = 2" "height 1 (squash small_cloud) = 1"
  by (simp_all add: width_def height_def small_extent ieee_ops exact_values)






lemma buildMesh_run_calm:
  assumes "throws c = (\<lambda>_. None)" and "third_slot c" and "pixel_reads_defined lib cfg points"
  shows "buildMesh_run c lib cfg points = (buildMesh lib cfg points, Returned)"
  using assms
  by (simp add: buildMesh_run_def buildMesh_def thrown_or_def squash_loop_def Let_def
        pixel_reads_defined_def filled_image_def interpolatedPoly_def polydataToProcess_def)

lemma thrown_or_Thrown:
  "snd (thrown_or t es rest) = Thrown x \<Longrightarrow> t = Some x \<or> snd rest = Thrown x"
  by (auto simp add: thrown_or_def split: option.splits)

lemma buildMesh_run_Thrown:
  assumes "snd (buildMesh_run c lib cfg points) = Thrown x"
  shows "\<exists>call. throws c call = Some x"
  using assms unfolding buildMesh_run_def Let_def
  by (auto dest!: thrown_or_Thrown split: if_splits)


lemma reporting_pixel_reads: "pixel_reads_defined reporting_vtk small_config small_cloud"
  by (simp add: pixel_reads_defined_def interpolatedPoly_def polydataToProcess_def
        reporting_vtk_def plain_vtk_def
        small_config_def small_width cells_present_def pixel_value_def GetCellPointId0_def
        GetValue_def grid_plane_def first_elevation_def plane_config_def Let_def
        upt_rec [of _ "numeral n" for n] upt_rec [of _ "Suc n" for n])

lemma plain_pixel_reads: "pixel_reads_defined plain_vtk small_config small_cloud"
  by (simp add: pixel_reads_defined_def interpolatedPoly_def polydataToProcess_def plain_vtk_def
        small_config_def small_width cells_present_def pixel_value_def GetCellPointId0_def
        GetValue_def grid_plane_def first_elevation_def plane_config_def Let_def
        upt_rec [of _ "numeral n" for n] upt_rec [of _ "Suc n" for n])

subsection \<open>The triangle budget at \<open>maxVertexCount = 0\<close>\<close>

text \<open>
  Claim C2, as amended. \<open>buildMesh\<close> has no case for \<open>maxVertexCount = 0\<close>: the value
  passes the parser's clamp unchanged, and the decimator is run with
  \<open>NumberOfTriangles = maxVertexCount * 2 = 0\<close>, the same expression as for every
  other value. No default and no unbounded budget is substituted by the driver.
\<close>

theorem terrain_budget_zero:
  assumes "maxVertexCount cfg = 0"
  shows "clamp_maxVertexCount (maxVertexCount cfg) = 0 \<and>
     NumberOfTriangles (terrain_config (maxVertexCount cfg)) = 0 \<and>
     plyWritten (buildMesh lib cfg points) =
       [(outputFile cfg,
         TransformFilter (transform (resolution cfg) (polydataToProcess lib points))
           (GreedyTerrainDecimation lib
              \<lparr>ErrorMeasure = NumberOfTrianglesMeasure, NumberOfTriangles = 0,
               BoundaryVertexDeletion = True\<rparr>
              (ImageAnisotropicDiffusion2D lib (surfaceDiffusion_config (resolution cfg))
                 (filled_image lib cfg points))))]"
  using assms
  by (simp add: plyWritten_buildMesh clamp_maxVertexCount_id) (simp add: terrain_config_def)

theorem terrain_budget_zero_witness:
  "maxVertexCount small_config = 0 \<and>
   clamp_maxVertexCount (maxVertexCount small_config) = 0"
  using terrain_budget_zero [of small_config plain_vtk small_cloud]
  by (simp add: small_config_def)

text \<open>
  The claim as written fails: at \<open>maxVertexCount = 0\<close> the budget handed to the
  decimator is 0 triangles.
\<close>

theorem terrain_budget_zero_counterexample:
  "maxVertexCount small_config = 0 \<and>
   NumberOfTriangles (terrain_config (maxVertexCount small_config)) = 0"
  by (simp add: small_config_def terrain_config_def)

subsection \<open>The number of diffusion iterations\<close>

text \<open>
  Claim C3, as amended. The iteration count given to the diffusion filter is
  \<open>resolution / 2.0\<close> converted to \<open>int\<close>, that is the quotient with its fraction
  dropped: \<open>\<lfloor>resolution / 2\<rfloor>\<close> for the non-negative resolutions the program works
  with. It is at least 1 exactly when \<open>resolution \<ge> 2\<close>, and 0 below that.
\<close>

theorem iterations_truncated:
  assumes "0 \<le> res"
  shows "NumberOfIterations (surfaceDiffusion_config res) = \<lfloor>res / 2\<rfloor> \<and>
     (1 \<le> NumberOfIterations (surfaceDiffusion_config res)) = (2 \<le> res)"
  using assms by (simp add: surfaceDiffusion_config_def double_to_int_def)

theorem iterations_truncated_witness:
  "(0::real) \<le> 5 \<and> NumberOfIterations (surfaceDiffusion_config 5) = 2"
  using iterations_truncated [of 5] by simp

text \<open>
  The claim as written fails: at resolution 1 the count is 0, below the claimed minimum,
  and at resolution 3 it is 1 while 3 / 2 rounds to 2.
\<close>

theorem iterations_counterexample:
  "\<not> 1 \<le> NumberOfIterations (surfaceDiffusion_config 1) \<and>
   NumberOfIterations (surfaceDiffusion_config 3) \<noteq> round (3 / 2 :: real)"
  by (simp add: surfaceDiffusion_config_def double_to_int_def round_def)

subsection \<open>Small clouds\<close>

text \<open>
  Claim C4, as amended. For every input cloud, also one with fewer than 25 points,
  \<open>buildMesh\<close> makes no check of the number of points and raises no error of its own: an
  exception that leaves it is one that a library call threw. It runs the outlier removal
  on the cloud with sample size 24 and standard deviation factor 1.5, and when the
  library calls return and the unchecked memory accesses of the driver succeed (the word
  behind the two-element point buffer, the cells and values read by the pixel loop), it
  hands the output of the removal on, runs the later stages, returns and writes the mesh
  to the output file.
\<close>

theorem buildMesh_without_point_count_check:
  assumes "throws c = (\<lambda>_. None)" and "third_slot c" and "pixel_reads_defined lib cfg points"
  shows "buildMesh_run c lib cfg points = (buildMesh lib cfg points, Returned) \<and>
     take 2 (buildMesh lib cfg points) =
       [Update OutlierRemoval,
        LogPointsRemoved
          (snd (StatisticalOutlierRemoval lib
             \<lparr>SampleSize = 24, StandardDeviationFactor = 3 / 2, GenerateOutliers = False\<rparr>
             points))] \<and>
     polydataToProcess lib points =
       squash (fst (StatisticalOutlierRemoval lib
         \<lparr>SampleSize = 24, StandardDeviationFactor = 3 / 2, GenerateOutliers = False\<rparr>
         points)) \<and>
     map fst (plyWritten (buildMesh lib cfg points)) = [outputFile cfg] \<and>
     (\<forall>c' x. snd (buildMesh_run c' lib cfg points) = Thrown x \<longrightarrow>
        (\<exists>call. throws c' call = Some x))"
proof -
  have "take 2 (buildMesh lib cfg points) =
       [Update OutlierRemoval,
        LogPointsRemoved
          (snd (StatisticalOutlierRemoval lib
             \<lparr>SampleSize = 24, StandardDeviationFactor = 3 / 2, GenerateOutliers = False\<rparr>
             points))]"
    by (simp add: buildMesh_def Let_def removal_config_def)
  moreover have "polydataToProcess lib points =
       squash (fst (StatisticalOutlierRemoval lib
         \<lparr>SampleSize = 24, StandardDeviationFactor = 3 / 2, GenerateOutliers = False\<rparr>
         points))"
    by (simp add: polydataToProcess_def removal_config_def)
  ultimately show ?thesis
    using buildMesh_run_calm [OF assms] buildMesh_run_Thrown
    by (simp add: plyWritten_buildMesh)
qed

text \<open>
  A run on a cloud of three points, with a removal that reports the sample size it was
  given: the count logged is 24.
\<close>

theorem buildMesh_without_point_count_check_witness:
  "throws calm = (\<lambda>_. None) \<and> third_slot calm \<and>
   pixel_reads_defined reporting_vtk small_config small_cloud \<and>
   length small_cloud < 25 \<and>
   buildMesh_run calm reporting_vtk small_config small_cloud =
     (buildMesh reporting_vtk small_config small_cloud, Returned) \<and>
   take 2 (buildMesh reporting_vtk small_config small_cloud) =
     [Update OutlierRemoval, LogPointsRemoved 24] \<and>
   map fst (plyWritten (buildMesh reporting_vtk small_config small_cloud)) = [''mesh.ply'']"
  using buildMesh_without_point_count_check [of calm reporting_vtk small_config small_cloud]
  by (simp add: calm_def reporting_pixel_reads)
     (simp add: small_cloud_def small_config_def reporting_vtk_def plain_vtk_def)

text \<open>
  The claim as written fails: on a cloud of three points, fewer than 24 + 1, with the
  library calls returning, \<open>buildMesh\<close> returns and the mesh file is written.
\<close>

theorem small_cloud_counterexample:
  "length small_cloud < 24 + 1 \<and>
   snd (buildMesh_run calm plain_vtk small_config small_cloud) = Returned \<and>
   map fst (plyWritten (fst (buildMesh_run calm plain_vtk small_config small_cloud)))
     = [''mesh.ply'']"
proof -
  have "buildMesh_run calm plain_vtk small_config small_cloud =
      (buildMesh plain_vtk small_config small_cloud, Returned)"
    by (rule buildMesh_run_calm) (simp_all add: calm_def plain_pixel_reads)
  then show ?thesis
    by (simp add: plyWritten_buildMesh) (simp add: small_cloud_def small_config_def)
qed

subsection \<open>The world transform\<close>




subsection \<open>Raster size and cell spacing\<close>












subsection \<open>The exported DSM\<close>

text \<open>
  Claim C10. When a DSM path is configured, exactly one raster is written to it: the
  image as the interpolation loop filled it. The write comes before the diffusion filter
  is run, and the written raster is the same whatever the diffusion filter does.
\<close>

theorem dsm_written_before_diffusion:
  assumes "outputDsmFile cfg \<noteq> []"
  shows "tiffWritten (buildMesh lib cfg points) = [(outputDsmFile cfg, filled_image lib cfg points)] \<and>
     tiffWritten (before_diffusion (buildMesh lib cfg points)) = tiffWritten (buildMesh lib cfg points) \<and>
     tiffWritten (buildMesh (lib\<lparr>ImageAnisotropicDiffusion2D := d\<rparr>) cfg points) =
       tiffWritten (buildMesh lib cfg points)"
  using assms
  by (simp add: tiffWritten_buildMesh tiffWritten_before_diffusion filled_image_frame)

theorem dsm_written_before_diffusion_witness:
  "outputDsmFile small_config \<noteq> [] \<and>
   tiffWritten
     (buildMesh (plain_vtk\<lparr>ImageAnisotropicDiffusion2D := (\<lambda>s img. img\<lparr>Pixels := (\<lambda>_. Some (Finite 0))\<rparr>)\<rparr>)
        small_config small_cloud) =
   [(''dsm.tif'', filled_image plain_vtk small_config small_cloud)]"
  using dsm_written_before_diffusion
    [of small_config plain_vtk small_cloud "\<lambda>s img. img\<lparr>Pixels := (\<lambda>_. Some (Finite 0))\<rparr>"]
  by (simp add: small_config_def)

end
